theory Spec2Isabelle
  imports Main "HOL-Library.Word"
begin

unbundle bit_operations_syntax

section \<open>Wire codec (tftp\_common.hpp)\<close>

text \<open>
  A \<^verbatim>\<open>std::vector<char>\<close>, a receive buffer together with its size, and a
  \<^verbatim>\<open>std::string\<close> are all sequences of octets.  A \<^verbatim>\<open>uint16_t\<close> is a
  \<open>16 word\<close>.
\<close>

type_synonym byte = "8 word"
type_synonym bytes = "byte list"
type_synonym uint16 = "16 word"

definition str :: "string \<Rightarrow> bytes" where
  "str s = map of_char s"

definition TFTP_OPCODE_RRQ :: uint16 where "TFTP_OPCODE_RRQ = 1"
definition TFTP_OPCODE_WRQ :: uint16 where "TFTP_OPCODE_WRQ = 2"
definition TFTP_OPCODE_DATA :: uint16 where "TFTP_OPCODE_DATA = 3"
definition TFTP_OPCODE_ACK :: uint16 where "TFTP_OPCODE_ACK = 4"
definition TFTP_OPCODE_ERROR :: uint16 where "TFTP_OPCODE_ERROR = 5"

definition TFTP_ERROR_NOT_DEFINED :: uint16 where "TFTP_ERROR_NOT_DEFINED = 0"
definition TFTP_ERROR_FILE_NOT_FOUND :: uint16 where "TFTP_ERROR_FILE_NOT_FOUND = 1"
definition TFTP_ERROR_ACCESS_VIOLATION :: uint16 where "TFTP_ERROR_ACCESS_VIOLATION = 2"
definition TFTP_ERROR_DISK_FULL :: uint16 where "TFTP_ERROR_DISK_FULL = 3"
definition TFTP_ERROR_ILLEGAL_OPERATION :: uint16 where "TFTP_ERROR_ILLEGAL_OPERATION = 4"
definition TFTP_ERROR_UNKNOWN_TRANSFER_ID :: uint16 where "TFTP_ERROR_UNKNOWN_TRANSFER_ID = 5"
definition TFTP_ERROR_FILE_ALREADY_EXISTS :: uint16 where "TFTP_ERROR_FILE_ALREADY_EXISTS = 6"

definition MAX_PACKET_SIZE :: nat where "MAX_PACKET_SIZE = 516"
definition DATA_HEADER_SIZE :: nat where "DATA_HEADER_SIZE = 4"
definition MAX_DATA_SIZE :: nat where "MAX_DATA_SIZE = 512"
definition ACK_PACKET_SIZE :: nat where "ACK_PACKET_SIZE = 4"
definition ERROR_HEADER_SIZE :: nat where "ERROR_HEADER_SIZE = 4"

text \<open>
  \<^verbatim>\<open>htons\<close> followed by a \<^verbatim>\<open>memcpy\<close> of the two bytes of the result lays the
  value out most significant byte first, on every host; \<^verbatim>\<open>memcpy\<close> into a
  \<^verbatim>\<open>uint16_t\<close> followed by \<^verbatim>\<open>ntohs\<close> reads it back.
\<close>

definition htons :: "uint16 \<Rightarrow> bytes" where
  "htons v = [ucast (drop_bit 8 v), ucast v]"

definition ntohs :: "byte \<Rightarrow> byte \<Rightarrow> uint16" where
  "ntohs hi lo = push_bit 8 (ucast hi) OR ucast lo"

text \<open>\<^verbatim>\<open>memchr(p, c, n)\<close> on the \<open>n\<close> bytes at \<open>p\<close>: the offset of the first
  occurrence, or the null pointer.\<close>

primrec memchr :: "bytes \<Rightarrow> byte \<Rightarrow> nat option" where
  "memchr [] c = None"
| "memchr (x # xs) c =
     (if x = c then Some 0
      else (case memchr xs c of None \<Rightarrow> None | Some i \<Rightarrow> Some (Suc i)))"

subsection \<open>Packet creation\<close>

datatype exn = Length_error

definition create_rrq_packet :: "bytes \<Rightarrow> bytes \<Rightarrow> bytes" where
  "create_rrq_packet filename mode =
     htons TFTP_OPCODE_RRQ @ filename @ [0] @ mode @ [0]"

definition create_wrq_packet :: "bytes \<Rightarrow> bytes \<Rightarrow> bytes" where
  "create_wrq_packet filename mode =
     htons TFTP_OPCODE_WRQ @ filename @ [0] @ mode @ [0]"

definition create_data_packet :: "uint16 \<Rightarrow> bytes \<Rightarrow> exn + bytes" where
  "create_data_packet block_num data =
     (if length data > MAX_DATA_SIZE then Inl Length_error
      else Inr (htons TFTP_OPCODE_DATA @ htons block_num @ data))"

definition create_ack_packet :: "uint16 \<Rightarrow> bytes" where
  "create_ack_packet block_num = htons TFTP_OPCODE_ACK @ htons block_num"

definition create_error_packet :: "uint16 \<Rightarrow> bytes \<Rightarrow> bytes" where
  "create_error_packet error_code error_msg =
     htons TFTP_OPCODE_ERROR @ htons error_code @ error_msg @ [0]"

subsection \<open>Packet parsing\<close>

text \<open>Each parser takes the received bytes (the buffer cut at \<open>size\<close>); the
  \<^verbatim>\<open>bool\<close> result and the output parameters become an option.\<close>

definition get_opcode :: "bytes \<Rightarrow> uint16" where
  "get_opcode buffer =
     (if length buffer < 2 then 0 else ntohs (buffer ! 0) (buffer ! 1))"

definition parse_ack_packet :: "bytes \<Rightarrow> uint16 option" where
  "parse_ack_packet buffer =
     (if length buffer \<noteq> ACK_PACKET_SIZE \<or> get_opcode buffer \<noteq> TFTP_OPCODE_ACK then None
      else Some (ntohs (buffer ! 2) (buffer ! 3)))"

definition parse_data_packet :: "bytes \<Rightarrow> (uint16 \<times> bytes) option" where
  "parse_data_packet buffer =
     (if length buffer < DATA_HEADER_SIZE \<or> get_opcode buffer \<noteq> TFTP_OPCODE_DATA then None
      else Some (ntohs (buffer ! 2) (buffer ! 3), drop DATA_HEADER_SIZE buffer))"

definition parse_error_packet :: "bytes \<Rightarrow> (uint16 \<times> bytes) option" where
  "parse_error_packet buffer =
     (if length buffer < ERROR_HEADER_SIZE + 1 \<or> get_opcode buffer \<noteq> TFTP_OPCODE_ERROR
      then None
      else
        let error_code = ntohs (buffer ! 2) (buffer ! 3);
            msg = drop ERROR_HEADER_SIZE buffer
        in (case memchr msg 0 of
              None \<Rightarrow> Some (error_code, str ''Malformed error packet received'')
            | Some n \<Rightarrow> Some (error_code, take n msg)))"

definition parse_request_packet :: "bytes \<Rightarrow> (bytes \<times> bytes) option" where
  "parse_request_packet buffer =
     (let opcode = get_opcode buffer in
      if opcode \<noteq> TFTP_OPCODE_RRQ \<and> opcode \<noteq> TFTP_OPCODE_WRQ then None
      else if length buffer < 6 then None
      else
        let p = drop 2 buffer in
        (case memchr p 0 of
           None \<Rightarrow> None
         | Some n \<Rightarrow>
             if n = 0 then None
             else
               let filename = take n p;
                   q = drop (Suc n) p
               in if q = [] then None
                  else (case memchr q 0 of
                          None \<Rightarrow> None
                        | Some m \<Rightarrow> if m = 0 then None else Some (filename, take m q))))"

text \<open>
  The five packet kinds.  The callers never parse a buffer blindly: they read
  \<open>get_opcode\<close> and hand the buffer to the parser of that kind
  (\<^verbatim>\<open>receive_file\<close>, \<^verbatim>\<open>send_file\<close>, \<^verbatim>\<open>run_server\<close> and both handlers do so).
  \<open>encode\<close> and \<open>parse\<close> collect the creation functions and that dispatch.
\<close>

datatype packet =
    ReadRequest bytes bytes
  | WriteRequest bytes bytes
  | Data uint16 bytes
  | Ack uint16
  | Error uint16 bytes

fun encode :: "packet \<Rightarrow> exn + bytes" where
  "encode (ReadRequest filename mode) = Inr (create_rrq_packet filename mode)"
| "encode (WriteRequest filename mode) = Inr (create_wrq_packet filename mode)"
| "encode (Data block_num data) = create_data_packet block_num data"
| "encode (Ack block_num) = Inr (create_ack_packet block_num)"
| "encode (Error error_code error_msg) = Inr (create_error_packet error_code error_msg)"

definition parse :: "bytes \<Rightarrow> packet option" where
  "parse buffer =
     (let opcode = get_opcode buffer in
      if opcode = TFTP_OPCODE_RRQ then
        map_option (\<lambda>(filename, mode). ReadRequest filename mode) (parse_request_packet buffer)
      else if opcode = TFTP_OPCODE_WRQ then
        map_option (\<lambda>(filename, mode). WriteRequest filename mode) (parse_request_packet buffer)
      else if opcode = TFTP_OPCODE_DATA then
        map_option (\<lambda>(block_num, data). Data block_num data) (parse_data_packet buffer)
      else if opcode = TFTP_OPCODE_ACK then
        map_option Ack (parse_ack_packet buffer)
      else if opcode = TFTP_OPCODE_ERROR then
        map_option (\<lambda>(error_code, error_msg). Error error_code error_msg)
          (parse_error_packet buffer)
      else None)"

text \<open>A packet that the wire format can carry: strings are zero-terminated on the
  wire, so they hold no zero byte; request strings are non-empty; a Data payload has
  at most 512 bytes.\<close>

fun valid_packet :: "packet \<Rightarrow> bool" where
  "valid_packet (ReadRequest filename mode) =
     (filename \<noteq> [] \<and> 0 \<notin> set filename \<and> mode \<noteq> [] \<and> 0 \<notin> set mode)"
| "valid_packet (WriteRequest filename mode) =
     (filename \<noteq> [] \<and> 0 \<notin> set filename \<and> mode \<noteq> [] \<and> 0 \<notin> set mode)"
| "valid_packet (Data block_num data) = (length data \<le> 512)"
| "valid_packet (Ack block_num) = True"
| "valid_packet (Error error_code error_msg) = (0 \<notin> set error_msg)"

section \<open>The environment of a transfer\<close>

text \<open>
  A socket address is the pair \<^verbatim>\<open>(sin_addr.s_addr, sin_port)\<close>.  One call of
  \<^verbatim>\<open>recvfrom\<close> on a socket with a receive timeout either times out
  (\<^verbatim>\<open>EAGAIN\<close>/\<^verbatim>\<open>EWOULDBLOCK\<close>), fails otherwise, or delivers a datagram and the address
  it came from.  The sequence of these results is the input of a transfer; a transfer
  that is still inside \<^verbatim>\<open>recvfrom\<close> when the sequence ends is \<open>Waiting\<close>.
\<close>

type_synonym sockaddr = "32 word \<times> 16 word"

datatype recv_result = Timeout | Recv_error | Datagram sockaddr bytes

text \<open>What the operating system decides: whether the \<open>n\<close>-th \<^verbatim>\<open>sendto\<close> call of the
  transfer succeeds, whether the \<open>n\<close>-th write to the output stream succeeds, and whether
  the output file can be opened.\<close>

record env =
  send_ok :: "nat \<Rightarrow> bool"
  write_ok :: "nat \<Rightarrow> bool"
  open_ok :: bool

text \<open>
  The state of a transfer: the file system (file name to contents), the \<^verbatim>\<open>sendto\<close>
  calls made so far (destination and datagram, in order), the number of writes to the
  output stream, and the local variables of the four transfer functions, under their
  names in the source.  Each function uses its own variables only: \<open>server_addr\<close>,
  \<open>first_data_packet\<close>, \<open>current_block_num\<close> and \<open>last_data_sent\<close> belong to the
  client, \<open>client_addr\<close>, \<open>block_num\<close> and \<open>last_ack_received\<close> to the server,
  \<open>expected_block_num\<close> and \<open>transfer_complete\<close> to the two receiving functions, and
  \<open>input_file\<close> (the unread rest of the input stream) to the two sending ones.
\<close>

record state =
  fs :: "bytes \<rightharpoonup> bytes"
  calls :: "(sockaddr \<times> bytes) list"
  nwrites :: nat
  server_addr :: sockaddr
  client_addr :: sockaddr
  expected_block_num :: uint16
  first_data_packet :: bool
  transfer_complete :: bool
  current_block_num :: uint16
  last_data_sent :: bool
  block_num :: uint16
  last_ack_received :: bool
  input_file :: bytes

text \<open>
  How a transfer function ends early: by an exception (\<^verbatim>\<open>throw std::runtime_error\<close>),
  or, in the server, by a \<^verbatim>\<open>return\<close> after an error was reported.
  \<open>Request_send_failed\<close> is a failed \<^verbatim>\<open>sendto\<close> of the client's RRQ or WRQ,
  \<open>Send_failed\<close> of any later packet; \<open>Recv_failed\<close> is a \<^verbatim>\<open>recvfrom\<close> that timed out
  or failed; \<open>Peer_error\<close> is an Error packet from the peer; \<open>Exception\<close> is an
  exception of \<open>create_data_packet\<close>, which the callers do not catch.  A transfer ends
  as \<open>Completed\<close>, as \<open>Aborted\<close>, or is \<open>Waiting\<close> in \<^verbatim>\<open>recvfrom\<close> when the sequence
  of results ends.
\<close>

datatype failure =
    Open_failed
  | Request_send_failed
  | Send_failed
  | Recv_failed
  | Write_error
  | Unexpected_block
  | Peer_error
  | Unexpected_initial_ack
  | Malformed_ack
  | Unexpected_packet_type
  | Unexpected_ack
  | Max_retries
  | File_not_found
  | File_exists
  | Malformed_data
  | Exception exn

datatype outcome = Completed | Aborted failure | Waiting

text \<open>A call of \<^verbatim>\<open>sendto\<close> is recorded whether it succeeds or not; its result is
  the environment's.\<close>

definition sendto :: "env \<Rightarrow> bytes \<Rightarrow> sockaddr \<Rightarrow> state \<Rightarrow> bool \<times> state" where
  "sendto e packet dest st =
     (send_ok e (length (calls st)), st\<lparr>calls := calls st @ [(dest, packet)]\<rparr>)"

text \<open>\<^verbatim>\<open>recvfrom(sock, buffer, MAX_PACKET_SIZE, ...)\<close> keeps the first 516 bytes of a
  datagram.\<close>

definition recv_buffer :: "bytes \<Rightarrow> bytes" where
  "recv_buffer datagram = take MAX_PACKET_SIZE datagram"

text \<open>\<^verbatim>\<open>output_file.write(data_ptr, data_size)\<close> followed by the test of the stream.
  A write that passes the test is taken to have reached the file: the buffering of the
  stream is not modelled, and the source does not test the stream after
  \<^verbatim>\<open>close()\<close>, so a flush that fails only there goes unnoticed by the code.\<close>

definition file_write :: "env \<Rightarrow> bytes \<Rightarrow> bytes \<Rightarrow> state \<Rightarrow> bool \<times> state" where
  "file_write e filename data st =
     (if write_ok e (nwrites st)
      then (True, st\<lparr>fs := (fs st)(filename \<mapsto>
                      (case fs st filename of None \<Rightarrow> [] | Some c \<Rightarrow> c) @ data),
                    nwrites := Suc (nwrites st)\<rparr>)
      else (False, st\<lparr>nwrites := Suc (nwrites st)\<rparr>))"

text \<open>\<^verbatim>\<open>output_file.close(); remove(filename.c_str());\<close>\<close>

definition file_remove :: "bytes \<Rightarrow> state \<Rightarrow> state" where
  "file_remove filename st = st\<lparr>fs := (fs st)(filename := None)\<rparr>"

text \<open>\<^verbatim>\<open>input_file.read(data_buffer, MAX_DATA_SIZE); bytes_read = input_file.gcount();\<close>:
  up to 512 bytes of the rest of the stream, nothing once it is exhausted.\<close>

definition file_read :: "state \<Rightarrow> bytes \<times> state" where
  "file_read st =
     (take MAX_DATA_SIZE (input_file st),
      st\<lparr>input_file := drop MAX_DATA_SIZE (input_file st)\<rparr>)"

section \<open>Client: receive\_file (GET)\<close>

text \<open>The part of the loop body after the source check: the datagram is decoded and
  acted upon; \<open>blk\<close> is the block number of the received packet.  The result is
  the exception thrown, if any, and the new state.\<close>

definition receive_file_packet :: "env \<Rightarrow> bytes \<Rightarrow> bytes \<Rightarrow> state \<Rightarrow> failure option \<times> state" where
  "receive_file_packet e local_filename buffer st =
     (let opcode = get_opcode buffer in
      if opcode = TFTP_OPCODE_DATA then
        (case parse_data_packet buffer of
           None \<Rightarrow> (None, st)
         | Some (blk, data) \<Rightarrow>
             if blk = expected_block_num st then
               (let (written, st1) = file_write e local_filename data st in
                if \<not> written then
                  (let (_, st2) = sendto e (create_error_packet TFTP_ERROR_DISK_FULL
                                     (str ''Disk full or write error'')) (server_addr st1) st1
                   in (Some Write_error, file_remove local_filename st2))
                else
                  (let (sent, st2) = sendto e (create_ack_packet blk) (server_addr st1) st1 in
                   if \<not> sent then (Some Send_failed, file_remove local_filename st2)
                   else if length data < MAX_DATA_SIZE then (None, st2\<lparr>transfer_complete := True\<rparr>)
                   else (None, st2\<lparr>expected_block_num := expected_block_num st2 + 1\<rparr>)))
             else if blk < expected_block_num st then
               (let (_, st1) = sendto e (create_ack_packet blk) (server_addr st) st
                in (None, st1))
             else
               (let (_, st1) = sendto e (create_error_packet TFTP_ERROR_ILLEGAL_OPERATION
                                  (str ''Unexpected block number'')) (server_addr st) st
                in (Some Unexpected_block, file_remove local_filename st1)))
      else if opcode = TFTP_OPCODE_ERROR then (Some Peer_error, file_remove local_filename st)
      else (None, st))"

text \<open>One pass through the body of \<^verbatim>\<open>while (!transfer_complete)\<close>, for one result of
  \<^verbatim>\<open>recvfrom\<close>.\<close>

definition receive_file_body :: "env \<Rightarrow> bytes \<Rightarrow> recv_result \<Rightarrow> state \<Rightarrow> failure option \<times> state" where
  "receive_file_body e local_filename ev st =
     (case ev of
        Timeout \<Rightarrow> (Some Recv_failed, file_remove local_filename st)
      | Recv_error \<Rightarrow> (Some Recv_failed, file_remove local_filename st)
      | Datagram transfer_addr datagram \<Rightarrow>
          if first_data_packet st then
            receive_file_packet e local_filename (recv_buffer datagram)
              (st\<lparr>server_addr := transfer_addr, first_data_packet := False\<rparr>)
          else if fst transfer_addr \<noteq> fst (server_addr st) \<or>
                  snd transfer_addr \<noteq> snd (server_addr st) then (None, st)
          else receive_file_packet e local_filename (recv_buffer datagram) st)"

fun receive_file_loop :: "env \<Rightarrow> bytes \<Rightarrow> recv_result list \<Rightarrow> state \<Rightarrow> outcome \<times> state" where
  "receive_file_loop e local_filename [] st =
     (if transfer_complete st then (Completed, st) else (Waiting, st))"
| "receive_file_loop e local_filename (ev # evs) st =
     (if transfer_complete st then (Completed, st)
      else (case receive_file_body e local_filename ev st of
              (Some f, st1) \<Rightarrow> (Aborted f, st1)
            | (None, st1) \<Rightarrow> receive_file_loop e local_filename evs st1))"

text \<open>\<^verbatim>\<open>receive_file\<close> from the first \<^verbatim>\<open>sendto\<close> on (the socket has been created and
  configured): \<open>server\<close> is the address \<^verbatim>\<open>(server_ip, server_port)\<close>.\<close>

definition receive_file ::
    "env \<Rightarrow> sockaddr \<Rightarrow> bytes \<Rightarrow> bytes \<Rightarrow> recv_result list \<Rightarrow> state \<Rightarrow> outcome \<times> state" where
  "receive_file e server remote_filename local_filename evs st0 =
     (let st = st0\<lparr>server_addr := server\<rparr>;
          (sent, st1) = sendto e (create_rrq_packet remote_filename (str ''octet'')) (server_addr st) st
      in if \<not> sent then (Aborted Request_send_failed, st1)
         else if \<not> open_ok e then (Aborted Open_failed, st1)
         else receive_file_loop e local_filename evs
                (st1\<lparr>fs := (fs st1)(local_filename \<mapsto> []),
                     expected_block_num := 1,
                     first_data_packet := True,
                     transfer_complete := False\<rparr>))"

section \<open>Client: send\_file (PUT)\<close>

text \<open>The wait for an acknowledgement inside the loop: one \<^verbatim>\<open>recvfrom\<close>; on a timeout
  the Data packet is sent again and \<^verbatim>\<open>recvfrom\<close> is called once more, and any failure of
  that second call ends the transfer.  The result is the datagram received and its
  source, with the results of \<^verbatim>\<open>recvfrom\<close> not yet consumed.\<close>

datatype await = Got sockaddr bytes | Failed failure | Pending

definition send_file_await ::
    "env \<Rightarrow> bytes \<Rightarrow> recv_result list \<Rightarrow> state \<Rightarrow> await \<times> recv_result list \<times> state" where
  "send_file_await e data_packet evs st =
     (case evs of
        [] \<Rightarrow> (Pending, [], st)
      | Recv_error # evs1 \<Rightarrow> (Failed Recv_failed, evs1, st)
      | Datagram transfer_addr datagram # evs1 \<Rightarrow> (Got transfer_addr (recv_buffer datagram), evs1, st)
      | Timeout # evs1 \<Rightarrow>
          (let (sent, st1) = sendto e data_packet (server_addr st) st in
           if \<not> sent then (Failed Send_failed, evs1, st1)
           else (case evs1 of
                   [] \<Rightarrow> (Pending, [], st1)
                 | Timeout # evs2 \<Rightarrow> (Failed Recv_failed, evs2, st1)
                 | Recv_error # evs2 \<Rightarrow> (Failed Recv_failed, evs2, st1)
                 | Datagram transfer_addr datagram # evs2 \<Rightarrow>
                     (Got transfer_addr (recv_buffer datagram), evs2, st1))))"

text \<open>The rest of the loop body, from the source check on.  \<open>None\<close> is the end of the
  body or a \<^verbatim>\<open>continue\<close>: the loop condition is tested next.\<close>

definition send_file_reply :: "sockaddr \<Rightarrow> bytes \<Rightarrow> state \<Rightarrow> failure option \<times> state" where
  "send_file_reply transfer_addr buffer st =
     (if fst transfer_addr \<noteq> fst (server_addr st) \<or> snd transfer_addr \<noteq> snd (server_addr st)
      then (None, st\<lparr>current_block_num := current_block_num st - 1, last_data_sent := False\<rparr>)
      else
        let opcode = get_opcode buffer in
        if opcode = TFTP_OPCODE_ACK then
          (case parse_ack_packet buffer of
             Some ack_block_num \<Rightarrow>
               if ack_block_num = current_block_num st
               then (None, st\<lparr>current_block_num := current_block_num st + 1\<rparr>)
               else if ack_block_num < current_block_num st
               then (None, st\<lparr>current_block_num := current_block_num st - 1,
                              last_data_sent := False\<rparr>)
               else (Some Unexpected_ack, st)
           | None \<Rightarrow> (Some Malformed_ack, st))
        else if opcode = TFTP_OPCODE_ERROR then (Some Peer_error, st)
        else (Some Unexpected_packet_type, st))"

lemma send_file_await_shorter:
  "send_file_await e data_packet evs st = (Got a b, evs1, st1) \<Longrightarrow> length evs1 < length evs"
  by (auto simp: send_file_await_def sendto_def split: list.splits recv_result.splits if_splits)

text \<open>One pass through the body of \<^verbatim>\<open>while (!last_data_sent)\<close>: either the function
  is left (\<open>Inl\<close>), or the loop condition is tested next, with the results of
  \<^verbatim>\<open>recvfrom\<close> that are still to come (\<open>Inr\<close>).\<close>

definition send_file_body ::
    "env \<Rightarrow> recv_result list \<Rightarrow> state \<Rightarrow> (outcome \<times> state) + (recv_result list \<times> state)" where
  "send_file_body e evs st =
     (let (data, st1) = file_read st in
      (case create_data_packet (current_block_num st1) data of
         Inl x \<Rightarrow> Inl (Aborted (Exception x), st1)
       | Inr data_packet \<Rightarrow>
           let (sent, st2) = sendto e data_packet (server_addr st1) st1 in
           if \<not> sent then Inl (Aborted Send_failed, st2)
           else
             let st3 = (if length data < MAX_DATA_SIZE then st2\<lparr>last_data_sent := True\<rparr> else st2)
             in (case send_file_await e data_packet evs st3 of
                   (Pending, _, st4) \<Rightarrow> Inl (Waiting, st4)
                 | (Failed f, _, st4) \<Rightarrow> Inl (Aborted f, st4)
                 | (Got transfer_addr buffer, evs1, st4) \<Rightarrow>
                     (case send_file_reply transfer_addr buffer st4 of
                        (Some f, st5) \<Rightarrow> Inl (Aborted f, st5)
                      | (None, st5) \<Rightarrow> Inr (evs1, st5)))))"

lemma send_file_body_shorter:
  "send_file_body e evs st = Inr (evs1, st1) \<Longrightarrow> length evs1 < length evs"
  by (auto simp: send_file_body_def Let_def dest: send_file_await_shorter
        split: prod.splits sum.splits if_splits await.splits option.splits)

function send_file_loop :: "env \<Rightarrow> recv_result list \<Rightarrow> state \<Rightarrow> outcome \<times> state" where
  "send_file_loop e evs st =
     (if last_data_sent st then (Completed, st)
      else (case send_file_body e evs st of
              Inl result \<Rightarrow> result
            | Inr (evs1, st1) \<Rightarrow> send_file_loop e evs1 st1))"
  by pat_completeness auto
termination
  by (relation "measure (\<lambda>(e, evs, st). length evs)")
     (auto dest: send_file_body_shorter)

declare send_file_loop.simps [simp del]

text \<open>\<^verbatim>\<open>send_file\<close> from the opening of the local file on; the first reply is awaited
  with a single \<^verbatim>\<open>recvfrom\<close>.\<close>

definition send_file ::
    "env \<Rightarrow> sockaddr \<Rightarrow> bytes \<Rightarrow> bytes \<Rightarrow> recv_result list \<Rightarrow> state \<Rightarrow> outcome \<times> state" where
  "send_file e server local_filename remote_filename evs st0 =
     (case fs st0 local_filename of
        None \<Rightarrow> (Aborted Open_failed, st0)
      | Some content \<Rightarrow>
          let st = st0\<lparr>input_file := content, server_addr := server\<rparr>;
              (sent, st1) = sendto e (create_wrq_packet remote_filename (str ''octet''))
                              (server_addr st) st
          in if \<not> sent then (Aborted Request_send_failed, st1)
             else (case evs of
                     [] \<Rightarrow> (Waiting, st1)
                   | Timeout # _ \<Rightarrow> (Aborted Recv_failed, st1)
                   | Recv_error # _ \<Rightarrow> (Aborted Recv_failed, st1)
                   | Datagram transfer_addr datagram # evs1 \<Rightarrow>
                       let st2 = st1\<lparr>server_addr := transfer_addr\<rparr>;
                           buffer = recv_buffer datagram;
                           opcode = get_opcode buffer
                       in if opcode = TFTP_OPCODE_ACK then
                            (case parse_ack_packet buffer of
                               Some ack_block_num \<Rightarrow>
                                 if ack_block_num = 0
                                 then send_file_loop e evs1
                                        (st2\<lparr>current_block_num := 1, last_data_sent := False\<rparr>)
                                 else (Aborted Unexpected_initial_ack, st2)
                             | None \<Rightarrow> (Aborted Malformed_ack, st2))
                          else if opcode = TFTP_OPCODE_ERROR then (Aborted Peer_error, st2)
                          else (Aborted Unexpected_packet_type, st2)))"

section \<open>Server: handle\_read\_request (RRQ)\<close>

definition MAX_RETRIES :: nat where "MAX_RETRIES = 5"

text \<open>The inner loop \<^verbatim>\<open>while (retry_count < MAX_RETRIES)\<close>.  \<open>None\<close> means the loop was
  left, by \<^verbatim>\<open>break\<close> or because its condition failed; the results of \<^verbatim>\<open>recvfrom\<close> not
  yet consumed are returned.  \<^verbatim>\<open>recvfrom\<close> stores the source of each datagram in
  \<open>client_addr\<close>.\<close>

fun handle_read_request_wait ::
    "env \<Rightarrow> bytes \<Rightarrow> nat \<Rightarrow> recv_result list \<Rightarrow> state \<Rightarrow> outcome option \<times> recv_result list \<times> state" where
  "handle_read_request_wait e data_packet retry_count [] st =
     (if retry_count < MAX_RETRIES then (Some Waiting, [], st) else (None, [], st))"
| "handle_read_request_wait e data_packet retry_count (ev # evs) st =
     (if \<not> retry_count < MAX_RETRIES then (None, ev # evs, st)
      else
        (case ev of
           Timeout \<Rightarrow>
             (let (sent, st1) = sendto e data_packet (client_addr st) st in
              if \<not> sent then (Some (Aborted Send_failed), evs, st1)
              else handle_read_request_wait e data_packet (retry_count + 1) evs st1)
         | Recv_error \<Rightarrow> (Some (Aborted Recv_failed), evs, st)
         | Datagram source datagram \<Rightarrow>
             (let st1 = st\<lparr>client_addr := source\<rparr>;
                  ack_buffer = recv_buffer datagram;
                  opcode = get_opcode ack_buffer
              in if opcode = TFTP_OPCODE_ACK then
                   (case parse_ack_packet ack_buffer of
                      Some acked_block_num \<Rightarrow>
                        if acked_block_num = block_num st1
                        then (None, evs, st1\<lparr>last_ack_received := True\<rparr>)
                        else if acked_block_num < block_num st1
                        then handle_read_request_wait e data_packet retry_count evs st1
                        else (Some (Aborted Unexpected_ack), evs, st1)
                    | None \<Rightarrow> handle_read_request_wait e data_packet retry_count evs st1)
                 else if opcode = TFTP_OPCODE_ERROR then (Some (Aborted Peer_error), evs, st1)
                 else handle_read_request_wait e data_packet retry_count evs st1)))"

lemma handle_read_request_wait_length:
  "handle_read_request_wait e data_packet retry_count evs st = (r, evs1, st1) \<Longrightarrow>
   length evs1 \<le> length evs"
proof (induction evs arbitrary: retry_count st)
  case Nil
  then show ?case by (auto split: if_splits)
next
  case (Cons ev evs)
  then show ?case
    by (fastforce simp: Let_def sendto_def
          split: if_splits recv_result.splits option.splits prod.splits)
qed

lemma handle_read_request_wait_shorter:
  assumes "handle_read_request_wait e data_packet 0 evs st = (None, evs1, st1)"
  shows "length evs1 < length evs"
proof (cases evs)
  case Nil
  with assms show ?thesis by (simp add: MAX_RETRIES_def)
next
  case (Cons ev evs')
  have "length evs1 \<le> length evs'"
    using assms Cons
    by (auto simp: Let_def MAX_RETRIES_def sendto_def dest: handle_read_request_wait_length
          split: if_splits recv_result.splits option.splits prod.splits)
  with Cons show ?thesis by simp
qed

text \<open>One pass through the body of the \<^verbatim>\<open>do ... while (bytes_read == MAX_DATA_SIZE)\<close>
  loop, with the test of its condition: either the function is left (\<open>Inl\<close>), or the
  body runs again (\<open>Inr\<close>).\<close>

definition handle_read_request_body ::
    "env \<Rightarrow> recv_result list \<Rightarrow> state \<Rightarrow> (outcome \<times> state) + (recv_result list \<times> state)" where
  "handle_read_request_body e evs st =
     (let (data, st1) = file_read st in
      (case create_data_packet (block_num st1) data of
         Inl x \<Rightarrow> Inl (Aborted (Exception x), st1)
       | Inr data_packet \<Rightarrow>
           let (sent, st2) = sendto e data_packet (client_addr st1) st1 in
           if \<not> sent then Inl (Aborted Send_failed, st2)
           else (case handle_read_request_wait e data_packet 0 evs st2 of
                   (Some r, _, st3) \<Rightarrow> Inl (r, st3)
                 | (None, evs1, st3) \<Rightarrow>
                     if \<not> last_ack_received st3 then Inl (Aborted Max_retries, st3)
                     else
                       let st4 = st3\<lparr>block_num := block_num st3 + 1\<rparr> in
                       if length data = MAX_DATA_SIZE then Inr (evs1, st4)
                       else Inl (Completed, st4))))"

lemma handle_read_request_body_shorter:
  "handle_read_request_body e evs st = Inr (evs1, st1) \<Longrightarrow> length evs1 < length evs"
  by (auto simp: handle_read_request_body_def Let_def dest: handle_read_request_wait_shorter
        split: prod.splits sum.splits if_splits option.splits)

function handle_read_request_loop :: "env \<Rightarrow> recv_result list \<Rightarrow> state \<Rightarrow> outcome \<times> state" where
  "handle_read_request_loop e evs st =
     (case handle_read_request_body e evs st of
        Inl result \<Rightarrow> result
      | Inr (evs1, st1) \<Rightarrow> handle_read_request_loop e evs1 st1)"
  by pat_completeness auto
termination
  by (relation "measure (\<lambda>(e, evs, st). length evs)")
     (auto dest: handle_read_request_body_shorter)

declare handle_read_request_loop.simps [simp del]

text \<open>The file can be opened for reading exactly when the file system has it.\<close>

definition handle_read_request ::
    "env \<Rightarrow> sockaddr \<Rightarrow> bytes \<Rightarrow> recv_result list \<Rightarrow> state \<Rightarrow> outcome \<times> state" where
  "handle_read_request e client filename evs st0 =
     (let st = st0\<lparr>client_addr := client\<rparr> in
      case fs st filename of
        None \<Rightarrow>
          (let (_, st1) = sendto e (create_error_packet TFTP_ERROR_FILE_NOT_FOUND
                             (str ''File not found'')) (client_addr st) st
           in (Aborted File_not_found, st1))
      | Some content \<Rightarrow>
          handle_read_request_loop e evs
            (st\<lparr>input_file := content, block_num := 1, last_ack_received := False\<rparr>))"

section \<open>Server: handle\_write\_request (WRQ)\<close>

definition handle_write_request_body ::
    "env \<Rightarrow> bytes \<Rightarrow> recv_result \<Rightarrow> state \<Rightarrow> failure option \<times> state" where
  "handle_write_request_body e filename ev st =
     (case ev of
        Timeout \<Rightarrow> (Some Recv_failed, file_remove filename st)
      | Recv_error \<Rightarrow> (Some Recv_failed, file_remove filename st)
      | Datagram source datagram \<Rightarrow>
          (let st0 = st\<lparr>client_addr := source\<rparr>;
               data_buffer = recv_buffer datagram;
               opcode = get_opcode data_buffer
           in if opcode = TFTP_OPCODE_DATA then
                (case parse_data_packet data_buffer of
                   None \<Rightarrow>
                     (let (_, st1) = sendto e (create_error_packet TFTP_ERROR_ILLEGAL_OPERATION
                                        (str ''Malformed DATA packet'')) (client_addr st0) st0
                      in (Some Malformed_data, file_remove filename st1))
                 | Some (blk, data) \<Rightarrow>
                     if blk = expected_block_num st0 then
                       (let (written, st1) = file_write e filename data st0 in
                        if \<not> written then
                          (let (_, st2) = sendto e (create_error_packet TFTP_ERROR_DISK_FULL
                                             (str ''Disk full or write error'')) (client_addr st1) st1
                           in (Some Write_error, file_remove filename st2))
                        else
                          (let (sent, st2) = sendto e (create_ack_packet blk) (client_addr st1) st1 in
                           if \<not> sent then (Some Send_failed, file_remove filename st2)
                           else if length data < MAX_DATA_SIZE
                           then (None, st2\<lparr>transfer_complete := True\<rparr>)
                           else (None, st2\<lparr>expected_block_num := expected_block_num st2 + 1\<rparr>)))
                     else if blk < expected_block_num st0 then
                       (let (_, st1) = sendto e (create_ack_packet blk) (client_addr st0) st0
                        in (None, st1))
                     else
                       (let (_, st1) = sendto e (create_error_packet TFTP_ERROR_ILLEGAL_OPERATION
                                          (str ''Unexpected block number'')) (client_addr st0) st0
                        in (Some Unexpected_block, file_remove filename st1)))
              else if opcode = TFTP_OPCODE_ERROR then (Some Peer_error, file_remove filename st0)
              else
                (let (_, st1) = sendto e (create_error_packet TFTP_ERROR_ILLEGAL_OPERATION
                                   (str ''Unexpected packet type'')) (client_addr st0) st0
                 in (Some Unexpected_packet_type, file_remove filename st1))))"

fun handle_write_request_loop ::
    "env \<Rightarrow> bytes \<Rightarrow> recv_result list \<Rightarrow> state \<Rightarrow> outcome \<times> state" where
  "handle_write_request_loop e filename [] st =
     (if transfer_complete st then (Completed, st) else (Waiting, st))"
| "handle_write_request_loop e filename (ev # evs) st =
     (if transfer_complete st then (Completed, st)
      else (case handle_write_request_body e filename ev st of
              (Some f, st1) \<Rightarrow> (Aborted f, st1)
            | (None, st1) \<Rightarrow> handle_write_request_loop e filename evs st1))"

text \<open>\<^verbatim>\<open>std::filesystem::exists\<close> is a look-up in the file system.\<close>

definition handle_write_request ::
    "env \<Rightarrow> sockaddr \<Rightarrow> bytes \<Rightarrow> recv_result list \<Rightarrow> state \<Rightarrow> outcome \<times> state" where
  "handle_write_request e client filename evs st0 =
     (let st = st0\<lparr>client_addr := client\<rparr> in
      if fs st filename \<noteq> None then
        (let (_, st1) = sendto e (create_error_packet TFTP_ERROR_FILE_ALREADY_EXISTS
                           (str ''File already exists'')) (client_addr st) st
         in (Aborted File_exists, st1))
      else if \<not> open_ok e then
        (let (_, st1) = sendto e (create_error_packet TFTP_ERROR_ACCESS_VIOLATION
                           (str ''Cannot write file'')) (client_addr st) st
         in (Aborted Open_failed, st1))
      else
        (let st1 = st\<lparr>fs := (fs st)(filename \<mapsto> [])\<rparr>;
             (sent, st2) = sendto e (create_ack_packet 0) (client_addr st1) st1
         in if \<not> sent then (Aborted Send_failed, file_remove filename st2)
            else handle_write_request_loop e filename evs
                   (st2\<lparr>expected_block_num := 1, transfer_complete := False\<rparr>)))"

section \<open>Concrete inputs\<close>

text \<open>An environment in which every system call succeeds, and a state with an empty
  file system in which nothing has been sent yet.\<close>

definition all_ok :: env where
  "all_ok = \<lparr>send_ok = (\<lambda>_. True), write_ok = (\<lambda>_. True), open_ok = True\<rparr>"

definition idle :: state where
  "idle = \<lparr>fs = Map.empty, calls = [], nwrites = 0, server_addr = (0, 0), client_addr = (0, 0),
     expected_block_num = 0, first_data_packet = False, transfer_complete = False,
     current_block_num = 0, last_data_sent = False, block_num = 0, last_ack_received = False,
     input_file = []\<rparr>"

text \<open>A peer at address \<open>peer\<close> that acknowledges \<open>n\<close> blocks in order, starting
  with block \<open>b\<close>; and the Data packets of the first \<open>n\<close> 512-byte blocks of a file,
  numbered from \<open>b\<close>, as \<^verbatim>\<open>sendto\<close> calls to \<open>peer\<close>.\<close>

fun acks :: "sockaddr \<Rightarrow> uint16 \<Rightarrow> nat \<Rightarrow> recv_result list" where
  "acks peer b 0 = []"
| "acks peer b (Suc n) = Datagram peer (create_ack_packet b) # acks peer (b + 1) n"

fun full_blocks :: "sockaddr \<Rightarrow> uint16 \<Rightarrow> bytes \<Rightarrow> nat \<Rightarrow> (sockaddr \<times> bytes) list" where
  "full_blocks peer b f 0 = []"
| "full_blocks peer b f (Suc n) =
     (peer, htons TFTP_OPCODE_DATA @ htons b @ take 512 f) # full_blocks peer (b + 1) (drop 512 f) n"

text \<open>Between two states of a client transfer, every packet sent went to \<open>peer\<close>, and
  \<open>peer\<close> is the bound address at the end; and the results of \<^verbatim>\<open>recvfrom\<close> that are
  not datagrams from another source than \<open>peer\<close>.\<close>

definition sends_to :: "sockaddr \<Rightarrow> state \<Rightarrow> state \<Rightarrow> bool" where
  "sends_to peer st st1 \<longleftrightarrow>
     server_addr st1 = peer \<and>
     (\<exists>cs. calls st1 = calls st @ cs \<and> (\<forall>c \<in> set cs. fst c = peer))"

fun not_foreign :: "sockaddr \<Rightarrow> recv_result \<Rightarrow> bool" where
  "not_foreign peer (Datagram source datagram) = (source = peer)"
| "not_foreign peer Timeout = True"
| "not_foreign peer Recv_error = True"

section \<open>Properties of the codec\<close>

lemma ntohs_htons: "ntohs (ucast (drop_bit 8 v)) (ucast v) = (v::uint16)"
  unfolding ntohs_def
  by (rule bit_word_eqI) (auto simp: bit_simps)

lemma get_opcode_htons: "get_opcode (htons v @ rest) = v"
  by (simp add: get_opcode_def htons_def ntohs_htons)

lemma memchr_append: "c \<notin> set xs \<Longrightarrow> memchr (xs @ c # ys) c = Some (length xs)"
  by (induction xs) auto

lemma memchr_None: "c \<notin> set xs \<Longrightarrow> memchr xs c = None"
  by (induction xs) auto

lemma opcode_distinct:
  "TFTP_OPCODE_RRQ \<noteq> TFTP_OPCODE_WRQ" "TFTP_OPCODE_DATA \<noteq> TFTP_OPCODE_RRQ"
  "TFTP_OPCODE_DATA \<noteq> TFTP_OPCODE_WRQ" "TFTP_OPCODE_ACK \<noteq> TFTP_OPCODE_RRQ"
  "TFTP_OPCODE_ACK \<noteq> TFTP_OPCODE_WRQ" "TFTP_OPCODE_ACK \<noteq> TFTP_OPCODE_DATA"
  "TFTP_OPCODE_ERROR \<noteq> TFTP_OPCODE_RRQ" "TFTP_OPCODE_ERROR \<noteq> TFTP_OPCODE_WRQ"
  "TFTP_OPCODE_ERROR \<noteq> TFTP_OPCODE_DATA" "TFTP_OPCODE_ERROR \<noteq> TFTP_OPCODE_ACK"
  by (simp_all add: TFTP_OPCODE_RRQ_def TFTP_OPCODE_WRQ_def TFTP_OPCODE_DATA_def
        TFTP_OPCODE_ACK_def TFTP_OPCODE_ERROR_def)

lemmas opcode_neq = opcode_distinct opcode_distinct [THEN not_sym]

lemma parse_request_packet_create:
  assumes "filename \<noteq> []" "0 \<notin> set filename" "mode \<noteq> []" "0 \<notin> set mode"
    and "op = TFTP_OPCODE_RRQ \<or> op = TFTP_OPCODE_WRQ"
  shows "parse_request_packet (htons op @ filename @ 0 # mode @ [0]) = Some (filename, mode)"
proof -
  have len: "\<not> length (htons op @ filename @ 0 # mode @ [0]) < 6"
    using assms(1,3) by (cases filename; cases mode) (simp_all add: htons_def)
  have d: "drop 2 (htons op @ filename @ 0 # mode @ [0]) = filename @ 0 # mode @ [0]"
    by (simp add: htons_def)
  have m1: "memchr (filename @ 0 # mode @ [0]) 0 = Some (length filename)"
    using assms(2) by (rule memchr_append)
  have m2: "memchr (mode @ [0]) 0 = Some (length mode)"
    using assms(4) memchr_append [of 0 mode "[]"] by simp
  show ?thesis
    unfolding parse_request_packet_def Let_def get_opcode_htons d
    using assms(1,3,5) len m1 m2 by auto
qed

lemma parse_data_packet_create:
  "parse_data_packet (htons TFTP_OPCODE_DATA @ htons blk @ data) = Some (blk, data)"
  by (simp add: parse_data_packet_def get_opcode_htons DATA_HEADER_SIZE_def)
     (simp add: htons_def ntohs_htons)

lemma parse_ack_packet_create: "parse_ack_packet (create_ack_packet blk) = Some blk"
  by (simp add: parse_ack_packet_def create_ack_packet_def get_opcode_htons ACK_PACKET_SIZE_def)
     (simp add: htons_def ntohs_htons)

lemma parse_error_packet_create:
  assumes "0 \<notin> set msg"
  shows "parse_error_packet (create_error_packet code msg) = Some (code, msg)"
proof -
  have d: "drop 4 (htons TFTP_OPCODE_ERROR @ htons code @ msg @ [0]) = msg @ [0]"
    by (simp add: htons_def)
  have m: "memchr (msg @ [0]) 0 = Some (length msg)"
    using assms memchr_append [of 0 msg "[]"] by simp
  have n: "ntohs ((htons TFTP_OPCODE_ERROR @ htons code @ msg @ [0]) ! 2)
             ((htons TFTP_OPCODE_ERROR @ htons code @ msg @ [0]) ! 3) = code"
    by (simp add: htons_def ntohs_htons)
  have l: "\<not> length (htons TFTP_OPCODE_ERROR @ htons code @ msg @ [0]) < 4 + 1"
    by (simp add: htons_def)
  show ?thesis
    unfolding parse_error_packet_def create_error_packet_def ERROR_HEADER_SIZE_def Let_def
      get_opcode_htons d m n
    using l by simp
qed

text \<open>
  Claim C3.  For every valid packet (a read or write request, a Data packet with at
  most 512 bytes of payload, an Ack or an Error), encoding succeeds and parsing the
  encoded bytes gives the packet back.
\<close>

theorem parse_encode_roundtrip:
  "valid_packet P \<Longrightarrow> \<exists>buffer. encode P = Inr buffer \<and> parse buffer = Some P"
proof (cases P)
  case (ReadRequest filename mode)
  assume "valid_packet P"
  with ReadRequest show ?thesis
    by (simp add: parse_def create_rrq_packet_def get_opcode_htons parse_request_packet_create)
next
  case (WriteRequest filename mode)
  assume "valid_packet P"
  with WriteRequest show ?thesis
    by (simp add: parse_def create_wrq_packet_def get_opcode_htons parse_request_packet_create
          opcode_neq)
next
  case (Data blk data)
  assume "valid_packet P"
  with Data show ?thesis
    by (simp add: parse_def create_data_packet_def MAX_DATA_SIZE_def get_opcode_htons
          parse_data_packet_create opcode_distinct)
next
  case (Ack blk)
  then show ?thesis
    using parse_ack_packet_create [of blk]
    by (simp add: parse_def get_opcode_htons opcode_neq)
       (simp add: create_ack_packet_def get_opcode_htons opcode_neq)
next
  case (Error code msg)
  assume "valid_packet P"
  with Error show ?thesis
    using parse_error_packet_create [of msg code]
    by (simp add: parse_def opcode_neq)
       (simp add: create_error_packet_def get_opcode_htons opcode_neq)
qed

theorem parse_encode_roundtrip_witness:
  "valid_packet (ReadRequest (str ''greet.txt'') (str ''octet'')) \<and>
   (\<exists>buffer. encode (ReadRequest (str ''greet.txt'') (str ''octet'')) = Inr buffer \<and>
      parse buffer = Some (ReadRequest (str ''greet.txt'') (str ''octet''))) \<and>
   valid_packet (Error 1 (str ''File not found'')) \<and>
   (\<exists>buffer. encode (Error 1 (str ''File not found'')) = Inr buffer \<and>
      parse buffer = Some (Error 1 (str ''File not found'')))"
proof -
  have v1: "valid_packet (ReadRequest (str ''greet.txt'') (str ''octet''))"
    by (simp add: str_def)
  have v2: "valid_packet (Error 1 (str ''File not found''))"
    by (simp add: str_def)
  show ?thesis
    using v1 v2 parse_encode_roundtrip [OF v1] parse_encode_roundtrip [OF v2] by blast
qed





text \<open>
  Claim C7, as stated, fails: for an Error packet whose message has no zero byte the
  parser does not return the rest of the buffer as the message.
\<close>

theorem error_without_terminator_counterexample:
  "parse_error_packet [0, 5, 0, 1, 65, 66] = Some (1, str ''Malformed error packet received'') \<and>
   parse_error_packet [0, 5, 0, 1, 65, 66] \<noteq> Some (1, [65, 66])"
  by (simp add: parse_error_packet_def get_opcode_def ntohs_def ERROR_HEADER_SIZE_def
        TFTP_OPCODE_ERROR_def str_def)

text \<open>
  Claim C7, amended.  For every buffer of at least 5 bytes with the Error opcode whose
  bytes after the 4-byte header contain no zero, parsing succeeds, the error code is
  the big-endian value of bytes 2 and 3, and the message is the fixed text
  ``Malformed error packet received''.
\<close>

theorem error_without_terminator:
  assumes "5 \<le> length buffer" and "get_opcode buffer = TFTP_OPCODE_ERROR"
    and "0 \<notin> set (drop 4 buffer)"
  shows "parse_error_packet buffer =
           Some (ntohs (buffer ! 2) (buffer ! 3), str ''Malformed error packet received'')"
  using assms memchr_None [of 0 "drop 4 buffer"]
  by (simp add: parse_error_packet_def ERROR_HEADER_SIZE_def)

theorem error_without_terminator_witness:
  "5 \<le> length [0, 5, 0, 1, 65, 66 :: byte] \<and> get_opcode [0, 5, 0, 1, 65, 66] = TFTP_OPCODE_ERROR \<and>
   0 \<notin> set (drop 4 [0, 5, 0, 1, 65, 66 :: byte]) \<and>
   parse_error_packet [0, 5, 0, 1, 65, 66] = Some (1, str ''Malformed error packet received'')"
proof -
  have a: "5 \<le> length [0, 5, 0, 1, 65, 66 :: byte]" by simp
  have b: "get_opcode [0, 5, 0, 1, 65, 66] = TFTP_OPCODE_ERROR"
    by (simp add: get_opcode_def ntohs_def TFTP_OPCODE_ERROR_def)
  have c: "0 \<notin> set (drop 4 [0, 5, 0, 1, 65, 66 :: byte])" by simp
  show ?thesis
    using a b c error_without_terminator [OF a b c] by (simp add: ntohs_def)
qed

section \<open>Receiving side: aborts remove the output file\<close>

lemma receive_file_packet_abort:
  "receive_file_packet e local_filename buffer st = (Some f, st1) \<Longrightarrow> fs st1 local_filename = None"
  by (auto simp: receive_file_packet_def file_remove_def sendto_def file_write_def Let_def
        split: if_splits option.splits prod.splits)

lemma receive_file_body_abort:
  "receive_file_body e local_filename ev st = (Some f, st1) \<Longrightarrow> fs st1 local_filename = None"
  by (auto simp: receive_file_body_def file_remove_def dest: receive_file_packet_abort
        split: recv_result.splits if_splits)

lemma receive_file_loop_abort:
  "receive_file_loop e local_filename evs st = (Aborted f, st1) \<Longrightarrow> fs st1 local_filename = None"
proof (induction evs arbitrary: st)
  case Nil
  then show ?case by (simp split: if_splits)
next
  case (Cons ev evs)
  then show ?case
    by (auto dest: receive_file_body_abort split: if_splits prod.splits option.splits)
qed

lemma receive_file_abort:
  assumes "receive_file e server remote_filename local_filename evs st0 = (Aborted f, st1)"
    and "f \<noteq> Request_send_failed" and "f \<noteq> Open_failed"
  shows "fs st1 local_filename = None"
  using assms
  by (auto simp: receive_file_def Let_def split: prod.splits if_splits
        dest: receive_file_loop_abort)

lemma handle_write_request_body_abort:
  "handle_write_request_body e filename ev st = (Some f, st1) \<Longrightarrow> fs st1 filename = None"
  by (auto simp: handle_write_request_body_def file_remove_def sendto_def file_write_def Let_def
        split: recv_result.splits if_splits option.splits prod.splits)

lemma handle_write_request_loop_abort:
  "handle_write_request_loop e filename evs st = (Aborted f, st1) \<Longrightarrow> fs st1 filename = None"
proof (induction evs arbitrary: st)
  case Nil
  then show ?case by (simp split: if_splits)
next
  case (Cons ev evs)
  then show ?case
    by (auto dest: handle_write_request_body_abort split: if_splits prod.splits option.splits)
qed

lemma handle_write_request_abort:
  assumes "handle_write_request e client filename evs st0 = (Aborted f, st1)"
    and "f \<noteq> File_exists"
  shows "fs st1 filename = None"
  using assms
  by (auto simp: handle_write_request_def Let_def sendto_def file_remove_def
        split: prod.splits if_splits dest: handle_write_request_loop_abort)

text \<open>
  Claim C9.  On the receiving side (client GET, server WRQ), whenever the transfer
  aborts after the output file has been opened (timeout or other receive failure, write
  failure, failed send of an Ack, Error packet from the peer, protocol error), the
  output file is gone from the file system afterwards.  The aborts that leave the file
  system alone happen before the output file is opened: the client cannot send its
  request or cannot open the file, the server finds that the file exists already.
\<close>

theorem receiver_abort_removes_file:
  "(receive_file e server remote_filename local_filename evs st0 = (Aborted f, st1) \<and>
      f \<noteq> Request_send_failed \<and> f \<noteq> Open_failed \<longrightarrow> fs st1 local_filename = None) \<and>
   (handle_write_request e' client filename evs' st0' = (Aborted f', st1') \<and> f' \<noteq> File_exists
      \<longrightarrow> fs st1' filename = None)"
  using receive_file_abort handle_write_request_abort by blast


text \<open>Unfolding rules for running the model on concrete inputs.\<close>

lemmas codec_defs =
  str_def htons_def ntohs_def get_opcode_def recv_buffer_def
  create_rrq_packet_def create_wrq_packet_def create_data_packet_def create_ack_packet_def
  create_error_packet_def parse_ack_packet_def parse_data_packet_def parse_error_packet_def
  TFTP_OPCODE_RRQ_def TFTP_OPCODE_WRQ_def TFTP_OPCODE_DATA_def TFTP_OPCODE_ACK_def
  TFTP_OPCODE_ERROR_def TFTP_ERROR_FILE_NOT_FOUND_def TFTP_ERROR_ACCESS_VIOLATION_def
  TFTP_ERROR_DISK_FULL_def TFTP_ERROR_ILLEGAL_OPERATION_def TFTP_ERROR_FILE_ALREADY_EXISTS_def
  MAX_PACKET_SIZE_def DATA_HEADER_SIZE_def MAX_DATA_SIZE_def ACK_PACKET_SIZE_def
  ERROR_HEADER_SIZE_def

lemmas run_defs =
  all_ok_def idle_def sendto_def file_write_def file_remove_def file_read_def Let_def
  receive_file_def receive_file_body_def receive_file_packet_def
  handle_write_request_def handle_write_request_body_def

lemma get_abort_example:
  "fst (receive_file all_ok (1, 69) (str ''r'') (str ''l'')
          [Datagram (1, 5000) ([0, 3, 0, 1] @ replicate 512 7), Timeout] idle) = Aborted Recv_failed"
  by (simp add: run_defs codec_defs)

lemma wrq_abort_example:
  "fst (handle_write_request all_ok (1, 4000) (str ''f'')
          [Datagram (1, 4000) [0, 3, 0, 2, 65]] idle) = Aborted Unexpected_block"
  by (simp add: run_defs codec_defs)

theorem receiver_abort_removes_file_witness:
  "fst (receive_file all_ok (1, 69) (str ''r'') (str ''l'')
          [Datagram (1, 5000) ([0, 3, 0, 1] @ replicate 512 7), Timeout] idle) = Aborted Recv_failed \<and>
   fs (snd (receive_file all_ok (1, 69) (str ''r'') (str ''l'')
          [Datagram (1, 5000) ([0, 3, 0, 1] @ replicate 512 7), Timeout] idle)) (str ''l'') = None \<and>
   fst (handle_write_request all_ok (1, 4000) (str ''f'')
          [Datagram (1, 4000) [0, 3, 0, 2, 65]] idle) = Aborted Unexpected_block \<and>
   fs (snd (handle_write_request all_ok (1, 4000) (str ''f'')
          [Datagram (1, 4000) [0, 3, 0, 2, 65]] idle)) (str ''f'') = None"
proof -
  let ?g = "receive_file all_ok (1, 69) (str ''r'') (str ''l'')
          [Datagram (1, 5000) ([0, 3, 0, 1] @ replicate 512 7), Timeout] idle"
  let ?w = "handle_write_request all_ok (1, 4000) (str ''f'')
          [Datagram (1, 4000) [0, 3, 0, 2, 65]] idle"
  have g: "?g = (Aborted Recv_failed, snd ?g)"
    using get_abort_example by (simp add: prod_eq_iff)
  have w: "?w = (Aborted Unexpected_block, snd ?w)"
    using wrq_abort_example by (simp add: prod_eq_iff)
  show ?thesis
    using g w get_abort_example wrq_abort_example
      receiver_abort_removes_file [of all_ok "(1, 69)" "str ''r''" "str ''l''"
        "[Datagram (1, 5000) ([0, 3, 0, 1] @ replicate 512 7), Timeout]" idle Recv_failed "snd ?g"
        all_ok "(1, 4000)" "str ''f''" "[Datagram (1, 4000) [0, 3, 0, 2, 65]]" idle
        Unexpected_block "snd ?w"]
    by simp
qed


section \<open>Client GET: datagrams from a foreign source\<close>

text \<open>
  Claim C1, as stated, fails.  A GET is under way, the first full Data block has bound
  the peer to \<open>(1, 5000)\<close>; a datagram from \<open>(2, 6000)\<close> gets no answer: the only
  packets sent are the request and the Ack of block 1.
\<close>

theorem foreign_source_counterexample:
  "fst (receive_file all_ok (1, 69) (str ''r'') (str ''l'')
          [Datagram (1, 5000) ([0, 3, 0, 1] @ replicate 512 7),
           Datagram (2, 6000) [0, 3, 0, 7]] idle) = Waiting \<and>
   calls (snd (receive_file all_ok (1, 69) (str ''r'') (str ''l'')
          [Datagram (1, 5000) ([0, 3, 0, 1] @ replicate 512 7),
           Datagram (2, 6000) [0, 3, 0, 7]] idle)) =
     [((1, 69), create_rrq_packet (str ''r'') (str ''octet'')),
      ((1, 5000), create_ack_packet 1)]"
  by (simp add: run_defs codec_defs)

text \<open>
  Claim C1, amended.  In the client GET path, once the peer is bound, a datagram from
  any other source is dropped: nothing is sent, the whole state of the transfer
  (expected block number, completion flag, bound peer, output file) is unchanged, and
  the loop goes on with the next receive.
\<close>

theorem get_foreign_source_dropped:
  assumes "\<not> first_data_packet st" and "source \<noteq> server_addr st"
  shows "receive_file_body e local_filename (Datagram source datagram) st = (None, st) \<and>
         (\<not> transfer_complete st \<longrightarrow>
            receive_file_loop e local_filename (Datagram source datagram # evs) st =
            receive_file_loop e local_filename evs st)"
  using assms by (auto simp: receive_file_body_def prod_eq_iff)

theorem get_foreign_source_dropped_witness:
  "\<not> first_data_packet (idle\<lparr>server_addr := (1, 5000)\<rparr>) \<and>
   (2, 6000) \<noteq> server_addr (idle\<lparr>server_addr := (1, 5000)\<rparr>) \<and>
   \<not> transfer_complete (idle\<lparr>server_addr := (1, 5000)\<rparr>) \<and>
   receive_file_body all_ok (str ''l'') (Datagram (2, 6000) [0, 3, 0, 7])
     (idle\<lparr>server_addr := (1, 5000)\<rparr>) = (None, idle\<lparr>server_addr := (1, 5000)\<rparr>) \<and>
   receive_file_loop all_ok (str ''l'') [Datagram (2, 6000) [0, 3, 0, 7]]
     (idle\<lparr>server_addr := (1, 5000)\<rparr>) = (Waiting, idle\<lparr>server_addr := (1, 5000)\<rparr>)"
proof -
  have a: "\<not> first_data_packet (idle\<lparr>server_addr := (1, 5000)\<rparr>)"
    by (simp add: idle_def)
  have b: "(2, 6000) \<noteq> server_addr (idle\<lparr>server_addr := (1, 5000)\<rparr>)"
    by (simp add: idle_def)
  have c: "\<not> transfer_complete (idle\<lparr>server_addr := (1, 5000)\<rparr>)"
    by (simp add: idle_def)
  show ?thesis
    using a b c get_foreign_source_dropped [OF a b, of all_ok "str ''l''" "[0, 3, 0, 7]" "[]"]
    by simp
qed

section \<open>Server: dispatch of a write request\<close>









section \<open>Sending side: duplicate acknowledgements\<close>

lemma recv_buffer_ack: "recv_buffer (create_ack_packet b) = create_ack_packet b"
  by (simp add: recv_buffer_def create_ack_packet_def htons_def MAX_PACKET_SIZE_def)

lemma get_opcode_ack: "get_opcode (create_ack_packet b) = TFTP_OPCODE_ACK"
  by (simp add: create_ack_packet_def get_opcode_htons)

lemmas put_defs =
  all_ok_def idle_def sendto_def file_read_def Let_def
  send_file_def send_file_loop.simps send_file_body_def send_file_await_def send_file_reply_def

text \<open>The server ignores an acknowledgement of an earlier block: nothing is sent,
  the block number and the retry count stay, and the next datagram is awaited.\<close>

lemma handle_read_request_duplicate_ack:
  assumes "retry_count < MAX_RETRIES" and "b < block_num st"
  shows "handle_read_request_wait e data_packet retry_count
           (Datagram source (create_ack_packet b) # evs) st =
         handle_read_request_wait e data_packet retry_count evs (st\<lparr>client_addr := source\<rparr>)"
  using assms
  by (auto simp: Let_def recv_buffer_ack get_opcode_ack parse_ack_packet_create)

text \<open>
  Claim C4 on the client.  A 3-byte file is put; the server's Ack 0 arrives twice.  The
  client has sent Data 1 and waits for Ack 1; on the duplicate Ack 0 it does not keep
  waiting: it decrements the block number to 0, reads the input file again (now at its
  end) and sends a Data packet with block number 0 and no payload.
\<close>

theorem send_file_duplicate_ack:
  "fst (send_file all_ok (1, 69) (str ''l'') (str ''r'')
          [Datagram (1, 5000) (create_ack_packet 0), Datagram (1, 5000) (create_ack_packet 0)]
          (idle\<lparr>fs := [str ''l'' \<mapsto> [97, 98, 99]]\<rparr>)) = Waiting \<and>
   calls (snd (send_file all_ok (1, 69) (str ''l'') (str ''r'')
          [Datagram (1, 5000) (create_ack_packet 0), Datagram (1, 5000) (create_ack_packet 0)]
          (idle\<lparr>fs := [str ''l'' \<mapsto> [97, 98, 99]]\<rparr>))) =
     [((1, 69), create_wrq_packet (str ''r'') (str ''octet'')),
      ((1, 5000), [0, 3, 0, 1, 97, 98, 99]),
      ((1, 5000), [0, 3, 0, 0])] \<and>
   current_block_num (snd (send_file all_ok (1, 69) (str ''l'') (str ''r'')
          [Datagram (1, 5000) (create_ack_packet 0), Datagram (1, 5000) (create_ack_packet 0)]
          (idle\<lparr>fs := [str ''l'' \<mapsto> [97, 98, 99]]\<rparr>))) = 0"
  by (simp add: put_defs codec_defs)


section \<open>Sending side: files of a multiple of 512 bytes\<close>

lemma send_file_loop_acked:
  assumes "\<not> last_data_sent st" and "send_ok e (length (calls st))"
  shows "send_file_loop e
           (Datagram (server_addr st) (create_ack_packet (current_block_num st)) # evs) st =
         send_file_loop e evs
           (st\<lparr>input_file := drop 512 (input_file st),
               calls := calls st @ [(server_addr st,
                          htons TFTP_OPCODE_DATA @ htons (current_block_num st) @
                          take 512 (input_file st))],
               last_data_sent := length (input_file st) < 512,
               current_block_num := current_block_num st + 1\<rparr>)"
proof -
  have "send_file_loop e
           (Datagram (server_addr st) (create_ack_packet (current_block_num st)) # evs) st =
         send_file_loop e evs
           ((if length (input_file st) < 512
             then st\<lparr>input_file := drop 512 (input_file st),
                    calls := calls st @ [(server_addr st,
                          htons TFTP_OPCODE_DATA @ htons (current_block_num st) @
                          take 512 (input_file st))],
                    last_data_sent := True\<rparr>
             else st\<lparr>input_file := drop 512 (input_file st),
                    calls := calls st @ [(server_addr st,
                          htons TFTP_OPCODE_DATA @ htons (current_block_num st) @
                          take 512 (input_file st))]\<rparr>)
            \<lparr>current_block_num := current_block_num st + 1\<rparr>)"
    using assms
    by (subst send_file_loop.simps)
       (simp add: send_file_body_def file_read_def create_data_packet_def MAX_DATA_SIZE_def sendto_def Let_def
          send_file_await_def send_file_reply_def recv_buffer_ack get_opcode_ack
          parse_ack_packet_create)
  moreover have "st\<lparr>input_file := i, calls := c, current_block_num := b\<rparr> =
      st\<lparr>input_file := i, calls := c, last_data_sent := False, current_block_num := b\<rparr>"
    for i c b
    using assms(1) by (intro state.equality) simp_all
  ultimately show ?thesis
    by (cases "length (input_file st) < 512") simp_all
qed

lemma send_file_loop_multiple:
  assumes "\<forall>n. send_ok e n"
  shows "length (input_file st) = 512 * k \<Longrightarrow> \<not> last_data_sent st \<Longrightarrow>
         send_file_loop e (acks (server_addr st) (current_block_num st) (Suc k)) st =
           (Completed,
            st\<lparr>input_file := [],
                calls := calls st @
                  full_blocks (server_addr st) (current_block_num st) (input_file st) k @
                  [(server_addr st, htons TFTP_OPCODE_DATA @ htons (current_block_num st + of_nat k))],
                last_data_sent := True,
                current_block_num := current_block_num st + of_nat k + 1\<rparr>)"
proof (induction k arbitrary: st)
  case 0
  then show ?case
    using assms by (simp add: send_file_loop_acked) (simp add: send_file_loop.simps)
next
  case (Suc k)
  let ?st = "st\<lparr>input_file := drop 512 (input_file st),
               calls := calls st @ [(server_addr st,
                          htons TFTP_OPCODE_DATA @ htons (current_block_num st) @
                          take 512 (input_file st))],
               last_data_sent := length (input_file st) < 512,
               current_block_num := current_block_num st + 1\<rparr>"
  have a: "length (input_file ?st) = 512 * k" "\<not> last_data_sent ?st"
    using Suc.prems by simp_all
  have "send_file_loop e (acks (server_addr st) (current_block_num st) (Suc (Suc k))) st =
        send_file_loop e (acks (server_addr ?st) (current_block_num ?st) (Suc k)) ?st"
    using Suc.prems assms send_file_loop_acked [of st e] by simp
  also have "\<dots> = (Completed,
            ?st\<lparr>input_file := [],
                calls := calls ?st @
                  full_blocks (server_addr ?st) (current_block_num ?st) (input_file ?st) k @
                  [(server_addr ?st, htons TFTP_OPCODE_DATA @ htons (current_block_num ?st + of_nat k))],
                last_data_sent := True,
                current_block_num := current_block_num ?st + of_nat k + 1\<rparr>)"
    by (rule Suc.IH [OF a])
  finally show ?case
    by (simp add: add.commute add.left_commute)
qed


lemma handle_read_request_loop_acked:
  assumes "send_ok e (length (calls st))"
  shows "handle_read_request_loop e
           (Datagram (client_addr st) (create_ack_packet (block_num st)) # evs) st =
         (if 512 \<le> length (input_file st)
          then handle_read_request_loop e evs
                 (st\<lparr>input_file := drop 512 (input_file st),
                     calls := calls st @ [(client_addr st,
                                htons TFTP_OPCODE_DATA @ htons (block_num st) @
                                take 512 (input_file st))],
                     last_ack_received := True,
                     block_num := block_num st + 1\<rparr>)
          else (Completed,
                 st\<lparr>input_file := drop 512 (input_file st),
                     calls := calls st @ [(client_addr st,
                                htons TFTP_OPCODE_DATA @ htons (block_num st) @
                                take 512 (input_file st))],
                     last_ack_received := True,
                     block_num := block_num st + 1\<rparr>))"
proof -
  have "st\<lparr>client_addr := client_addr st, input_file := i, calls := c, last_ack_received := True,
           block_num := b\<rparr> =
        st\<lparr>input_file := i, calls := c, last_ack_received := True, block_num := b\<rparr>" for i c b
    by (intro state.equality) simp_all
  then show ?thesis
    using assms
    by (subst handle_read_request_loop.simps)
       (auto simp: handle_read_request_body_def file_read_def create_data_packet_def MAX_DATA_SIZE_def MAX_RETRIES_def
          sendto_def Let_def recv_buffer_ack get_opcode_ack parse_ack_packet_create)
qed

lemma handle_read_request_loop_multiple:
  assumes "\<forall>n. send_ok e n"
  shows "length (input_file st) = 512 * k \<Longrightarrow>
         handle_read_request_loop e (acks (client_addr st) (block_num st) (Suc k)) st =
           (Completed,
            st\<lparr>input_file := [],
                calls := calls st @
                  full_blocks (client_addr st) (block_num st) (input_file st) k @
                  [(client_addr st, htons TFTP_OPCODE_DATA @ htons (block_num st + of_nat k))],
                last_ack_received := True,
                block_num := block_num st + of_nat k + 1\<rparr>)"
proof (induction k arbitrary: st)
  case 0
  then show ?case
    using assms by (simp add: handle_read_request_loop_acked)
next
  case (Suc k)
  let ?st = "st\<lparr>input_file := drop 512 (input_file st),
               calls := calls st @ [(client_addr st,
                          htons TFTP_OPCODE_DATA @ htons (block_num st) @
                          take 512 (input_file st))],
               last_ack_received := True,
               block_num := block_num st + 1\<rparr>"
  have a: "length (input_file ?st) = 512 * k"
    using Suc.prems by simp
  have "handle_read_request_loop e (acks (client_addr st) (block_num st) (Suc (Suc k))) st =
        handle_read_request_loop e (acks (client_addr ?st) (block_num ?st) (Suc k)) ?st"
    using Suc.prems assms handle_read_request_loop_acked [of e st] by simp
  also have "\<dots> = (Completed,
            ?st\<lparr>input_file := [],
                calls := calls ?st @
                  full_blocks (client_addr ?st) (block_num ?st) (input_file ?st) k @
                  [(client_addr ?st, htons TFTP_OPCODE_DATA @ htons (block_num ?st + of_nat k))],
                last_ack_received := True,
                block_num := block_num ?st + of_nat k + 1\<rparr>)"
    by (rule Suc.IH [OF a])
  finally show ?case
    by (simp add: add.commute add.left_commute)
qed

lemma full_blocks_length: "length (full_blocks peer b f k) = k"
  by (induction k arbitrary: b f) simp_all

lemma full_blocks_payload:
  "length f = 512 * k \<Longrightarrow> concat (map (drop 4 \<circ> snd) (full_blocks peer b f k)) = f"
proof (induction k arbitrary: b f)
  case 0
  then show ?case by simp
next
  case (Suc k)
  then have "length (drop 512 f) = 512 * k" by simp
  then have "concat (map (drop 4 \<circ> snd) (full_blocks peer (b + 1) (drop 512 f) k)) = drop 512 f"
    by (rule Suc.IH)
  then show ?case
    using append_take_drop_id [of 512 f] by (simp add: htons_def comp_def)
qed

lemma send_file_multiple:
  assumes "\<forall>n. send_ok e n" and "length f = 512 * k" and "fs st0 local_filename = Some f"
  shows "send_file e server local_filename remote_filename
           (Datagram peer (create_ack_packet 0) # acks peer 1 (Suc k)) st0 =
         (Completed,
          st0\<lparr>server_addr := peer,
              input_file := [],
              calls := calls st0 @ [(server, create_wrq_packet remote_filename (str ''octet''))] @
                full_blocks peer 1 f k @ [(peer, htons TFTP_OPCODE_DATA @ htons (1 + of_nat k))],
              last_data_sent := True,
              current_block_num := 1 + of_nat k + 1\<rparr>)"
proof -
  let ?st = "st0\<lparr>input_file := f,
                calls := calls st0 @ [(server, create_wrq_packet remote_filename (str ''octet''))],
                server_addr := peer, current_block_num := 1, last_data_sent := False\<rparr>"
  have "send_file e server local_filename remote_filename
           (Datagram peer (create_ack_packet 0) # acks peer 1 (Suc k)) st0 =
        send_file_loop e (acks (server_addr ?st) (current_block_num ?st) (Suc k)) ?st"
    using assms(1,3)
    by (simp add: send_file_def sendto_def Let_def recv_buffer_ack get_opcode_ack
          parse_ack_packet_create)
  also have "\<dots> = (Completed,
            ?st\<lparr>input_file := [],
                calls := calls ?st @
                  full_blocks (server_addr ?st) (current_block_num ?st) (input_file ?st) k @
                  [(server_addr ?st, htons TFTP_OPCODE_DATA @ htons (current_block_num ?st + of_nat k))],
                last_data_sent := True,
                current_block_num := current_block_num ?st + of_nat k + 1\<rparr>)"
    using assms(2) by (intro send_file_loop_multiple [OF assms(1)]) simp_all
  finally show ?thesis by simp
qed

lemma handle_read_request_multiple:
  assumes "\<forall>n. send_ok e n" and "length f = 512 * k" and "fs st0 filename = Some f"
  shows "handle_read_request e client filename (acks client 1 (Suc k)) st0 =
         (Completed,
          st0\<lparr>client_addr := client,
              input_file := [],
              calls := calls st0 @ full_blocks client 1 f k @
                [(client, htons TFTP_OPCODE_DATA @ htons (1 + of_nat k))],
              last_ack_received := True,
              block_num := 1 + of_nat k + 1\<rparr>)"
proof -
  let ?st = "st0\<lparr>client_addr := client, input_file := f, block_num := 1,
                last_ack_received := False\<rparr>"
  have "handle_read_request e client filename (acks client 1 (Suc k)) st0 =
        handle_read_request_loop e (acks (client_addr ?st) (block_num ?st) (Suc k)) ?st"
    using assms(3) by (simp add: handle_read_request_def Let_def)
  also have "\<dots> = (Completed,
            ?st\<lparr>input_file := [],
                calls := calls ?st @
                  full_blocks (client_addr ?st) (block_num ?st) (input_file ?st) k @
                  [(client_addr ?st, htons TFTP_OPCODE_DATA @ htons (block_num ?st + of_nat k))],
                last_ack_received := True,
                block_num := block_num ?st + of_nat k + 1\<rparr>)"
    using assms(2) by (intro handle_read_request_loop_multiple [OF assms(1)]) simp
  finally show ?thesis by simp
qed


text \<open>
  Claim C5.  A file of \<open>k\<close> times 512 bytes is sent to a peer that acknowledges every
  block in order.  Both senders (client PUT after the Ack 0, server RRQ) complete, and
  the Data packets they send are the \<open>k\<close> full blocks, numbered from 1 and carrying the
  file, followed by one Data packet \<open>k + 1\<close> with an empty payload, which ends the
  transfer.  For 512 bytes these are exactly two Data packets.
\<close>

theorem exact_multiple_empty_final_block:
  assumes "\<forall>n. send_ok e n" and "length f = 512 * k"
  shows "(fs st0 local_filename = Some f \<longrightarrow>
            send_file e server local_filename remote_filename
              (Datagram peer (create_ack_packet 0) # acks peer 1 (Suc k)) st0 =
            (Completed,
             st0\<lparr>server_addr := peer,
                 input_file := [],
                 calls := calls st0 @
                   [(server, create_wrq_packet remote_filename (str ''octet''))] @
                   full_blocks peer 1 f k @
                   [(peer, htons TFTP_OPCODE_DATA @ htons (1 + of_nat k))],
                 last_data_sent := True,
                 current_block_num := 1 + of_nat k + 1\<rparr>)) \<and>
         (fs st0 filename = Some f \<longrightarrow>
            handle_read_request e client filename (acks client 1 (Suc k)) st0 =
            (Completed,
             st0\<lparr>client_addr := client,
                 input_file := [],
                 calls := calls st0 @ full_blocks client 1 f k @
                   [(client, htons TFTP_OPCODE_DATA @ htons (1 + of_nat k))],
                 last_ack_received := True,
                 block_num := 1 + of_nat k + 1\<rparr>)) \<and>
         create_data_packet (1 + of_nat k) [] =
           Inr (htons TFTP_OPCODE_DATA @ htons (1 + of_nat k)) \<and>
         length (full_blocks peer 1 f k) = k \<and>
         concat (map (drop 4 \<circ> snd) (full_blocks peer 1 f k)) = f"
  using assms send_file_multiple [of e f k st0 local_filename server remote_filename peer]
    handle_read_request_multiple [of e f k st0 filename client]
    full_blocks_length [of peer 1 f k] full_blocks_payload [of f k peer 1]
  by (simp add: create_data_packet_def)

theorem exact_multiple_empty_final_block_witness:
  "(\<forall>n. send_ok all_ok n) \<and> length (replicate 512 (7::byte)) = 512 * 1 \<and>
   fs (idle\<lparr>fs := [str ''l'' \<mapsto> replicate 512 7]\<rparr>) (str ''l'') = Some (replicate 512 7) \<and>
   fst (send_file all_ok (1, 69) (str ''l'') (str ''r'')
          [Datagram (1, 5000) (create_ack_packet 0), Datagram (1, 5000) (create_ack_packet 1),
           Datagram (1, 5000) (create_ack_packet 2)]
          (idle\<lparr>fs := [str ''l'' \<mapsto> replicate 512 7]\<rparr>)) = Completed \<and>
   calls (snd (send_file all_ok (1, 69) (str ''l'') (str ''r'')
          [Datagram (1, 5000) (create_ack_packet 0), Datagram (1, 5000) (create_ack_packet 1),
           Datagram (1, 5000) (create_ack_packet 2)]
          (idle\<lparr>fs := [str ''l'' \<mapsto> replicate 512 7]\<rparr>))) =
     [((1, 69), create_wrq_packet (str ''r'') (str ''octet'')),
      ((1, 5000), [0, 3, 0, 1] @ replicate 512 7),
      ((1, 5000), [0, 3, 0, 2])] \<and>
   fst (handle_read_request all_ok (1, 4000) (str ''l'')
          [Datagram (1, 4000) (create_ack_packet 1), Datagram (1, 4000) (create_ack_packet 2)]
          (idle\<lparr>fs := [str ''l'' \<mapsto> replicate 512 7]\<rparr>)) = Completed \<and>
   calls (snd (handle_read_request all_ok (1, 4000) (str ''l'')
          [Datagram (1, 4000) (create_ack_packet 1), Datagram (1, 4000) (create_ack_packet 2)]
          (idle\<lparr>fs := [str ''l'' \<mapsto> replicate 512 7]\<rparr>))) =
     [((1, 4000), [0, 3, 0, 1] @ replicate 512 7),
      ((1, 4000), [0, 3, 0, 2])]"
proof -
  have a: "\<forall>n. send_ok all_ok n"
    by (simp add: all_ok_def)
  have b: "length (replicate 512 (7::byte)) = 512 * 1"
    by simp
  have c: "fs (idle\<lparr>fs := [str ''l'' \<mapsto> replicate 512 7]\<rparr>) (str ''l'') = Some (replicate 512 7)"
    by simp
  have d: "calls idle = []"
    by (simp add: idle_def)
  have k: "acks peer 1 (Suc (Suc 0)) =
      [Datagram peer (create_ack_packet 1), Datagram peer (create_ack_packet 2)]" for peer
    by (simp add: numeral_2_eq_2)
  have h: "htons TFTP_OPCODE_DATA = [0, 3]" "htons 1 = [0, 1]" "htons 2 = [0, 2]"
    by (simp_all add: htons_def TFTP_OPCODE_DATA_def)
  show ?thesis
    using a b c
      exact_multiple_empty_final_block [OF a b,
        where ?st0.0 = "idle\<lparr>fs := [str ''l'' \<mapsto> replicate 512 7]\<rparr>"
        and local_filename = "str ''l''" and filename = "str ''l''" and server = "(1, 69)"
        and remote_filename = "str ''r''" and peer = "(1, 5000)" and client = "(1, 4000)"]
    by (simp add: k d h)
qed

section \<open>Client: the peer is bound once\<close>

lemma sends_to_refl: "server_addr st = peer \<Longrightarrow> sends_to peer st st"
  by (simp add: sends_to_def)

lemma sends_to_trans: "sends_to peer st st1 \<Longrightarrow> sends_to peer st1 st2 \<Longrightarrow> sends_to peer st st2"
  by (auto simp: sends_to_def)

lemma send_file_body_sends_to:
  "send_file_body e evs st = Inl (r, st1) \<Longrightarrow> sends_to (server_addr st) st st1"
  "send_file_body e evs st = Inr (evs1, st1) \<Longrightarrow> sends_to (server_addr st) st st1"
  by (auto simp: send_file_body_def send_file_await_def send_file_reply_def sendto_def
        file_read_def sends_to_def Let_def
        split: prod.splits sum.splits if_splits await.splits option.splits list.splits
          recv_result.splits)

lemma send_file_loop_sends_to:
  "send_file_loop e evs st = (r, st1) \<Longrightarrow> sends_to (server_addr st) st st1"
proof (induction e evs st arbitrary: r st1 rule: send_file_loop.induct)
  case (1 e evs st)
  show ?case
  proof (cases "last_data_sent st")
    case True
    with "1.prems" show ?thesis
      by (simp add: send_file_loop.simps sends_to_refl)
  next
    case False
    show ?thesis
    proof (cases "send_file_body e evs st")
      case (Inl res)
      with "1.prems" False have "send_file_body e evs st = Inl (r, st1)"
        by (simp add: send_file_loop.simps [of e evs st])
      then show ?thesis by (rule send_file_body_sends_to)
    next
      case (Inr cont)
      obtain evs1 st2 where cont: "cont = (evs1, st2)" by (cases cont)
      have a: "sends_to (server_addr st) st st2"
        using Inr cont by (auto dest: send_file_body_sends_to)
      have "send_file_loop e evs1 st2 = (r, st1)"
        using "1.prems" False Inr cont by (simp add: send_file_loop.simps [of e evs st])
      then have "sends_to (server_addr st2) st2 st1"
        using "1.IH" [OF False Inr cont [symmetric]] by simp
      with a show ?thesis
        by (auto simp: sends_to_def)
    qed
  qed
qed

lemma receive_file_packet_sends_to:
  "receive_file_packet e local_filename buffer st = (x, st1) \<Longrightarrow>
   sends_to (server_addr st) st st1 \<and> first_data_packet st1 = first_data_packet st"
  by (auto simp: receive_file_packet_def sendto_def file_write_def file_remove_def sends_to_def
        Let_def split: if_splits option.splits prod.splits)

lemma receive_file_body_sends_to:
  assumes "receive_file_body e local_filename ev st = (x, st1)" and "\<not> first_data_packet st"
  shows "sends_to (server_addr st) st st1 \<and> \<not> first_data_packet st1"
  using assms
  by (auto simp: receive_file_body_def file_remove_def sends_to_def
        dest: receive_file_packet_sends_to split: recv_result.splits if_splits)

lemma receive_file_body_foreign:
  assumes "\<not> first_data_packet st" and "\<not> not_foreign (server_addr st) ev"
  shows "receive_file_body e local_filename ev st = (None, st)"
  using assms by (cases ev) (auto simp: receive_file_body_def prod_eq_iff)

lemma receive_file_loop_sends_to:
  "receive_file_loop e local_filename evs st = (r, st1) \<Longrightarrow> \<not> first_data_packet st \<Longrightarrow>
   sends_to (server_addr st) st st1 \<and>
   receive_file_loop e local_filename (filter (not_foreign (server_addr st)) evs) st = (r, st1)"
proof (induction evs arbitrary: st)
  case Nil
  then show ?case by (auto simp: sends_to_refl split: if_splits)
next
  case (Cons ev evs)
  show ?case
  proof (cases "transfer_complete st")
    case True
    with Cons.prems show ?thesis
      by (cases "filter (not_foreign (server_addr st)) (ev # evs)") (auto simp: sends_to_refl)
  next
    case False
    obtain x st2 where b: "receive_file_body e local_filename ev st = (x, st2)"
      by (cases "receive_file_body e local_filename ev st")
    have s2: "sends_to (server_addr st) st st2" "\<not> first_data_packet st2"
      using receive_file_body_sends_to [OF b Cons.prems(2)] by simp_all
    show ?thesis
    proof (cases x)
      case (Some f)
      have nf: "not_foreign (server_addr st) ev"
        using receive_file_body_foreign [OF Cons.prems(2), of ev e local_filename] b Some
        by auto
      with Cons.prems False b Some s2 show ?thesis by auto
    next
      case None
      have l: "receive_file_loop e local_filename evs st2 = (r, st1)"
        using Cons.prems(1) False b None by simp
      have ih: "sends_to (server_addr st2) st2 st1"
        "receive_file_loop e local_filename (filter (not_foreign (server_addr st2)) evs) st2 = (r, st1)"
        using Cons.IH [OF l s2(2)] by simp_all
      have addr: "server_addr st2 = server_addr st"
        using s2(1) by (simp add: sends_to_def)
      have t: "sends_to (server_addr st) st st1"
        using s2(1) ih(1) addr by (auto simp: sends_to_def)
      show ?thesis
      proof (cases "not_foreign (server_addr st) ev")
        case True
        with t ih(2) addr False b None show ?thesis by simp
      next
        case nf: False
        have "st2 = st"
          using receive_file_body_foreign [OF Cons.prems(2) nf, of e local_filename] b by simp
        with t ih(2) nf show ?thesis by simp
      qed
    qed
  qed
qed


lemma sends_to_drop:
  assumes "sends_to peer st st1" and "length (calls st) = n"
  shows "\<forall>c \<in> set (drop n (calls st1)). fst c = peer"
  using assms by (auto simp: sends_to_def)

lemma receive_file_loop_first:
  assumes "receive_file_loop e local_filename (Datagram source datagram # evs) st = (r, st1)"
    and "first_data_packet st" and "\<not> transfer_complete st"
  shows "sends_to source (st\<lparr>server_addr := source\<rparr>) st1 \<and>
         receive_file_loop e local_filename
           (Datagram source datagram # filter (not_foreign source) evs) st = (r, st1)"
proof -
  let ?st = "st\<lparr>server_addr := source, first_data_packet := False\<rparr>"
  obtain x st2 where p: "receive_file_packet e local_filename (recv_buffer datagram) ?st = (x, st2)"
    by (cases "receive_file_packet e local_filename (recv_buffer datagram) ?st")
  have b: "receive_file_body e local_filename (Datagram source datagram) st = (x, st2)"
    using p assms(2) by (simp add: receive_file_body_def)
  have s2: "sends_to source ?st st2" "\<not> first_data_packet st2"
    using receive_file_packet_sends_to [OF p] by simp_all
  have addr: "server_addr st2 = source"
    using s2(1) by (simp add: sends_to_def)
  show ?thesis
  proof (cases x)
    case (Some f)
    with assms(1,3) b s2 show ?thesis
      by (auto simp: sends_to_def)
  next
    case None
    have l: "receive_file_loop e local_filename evs st2 = (r, st1)"
      using assms(1,3) b None by simp
    have "sends_to source st2 st1"
      "receive_file_loop e local_filename (filter (not_foreign source) evs) st2 = (r, st1)"
      using receive_file_loop_sends_to [OF l s2(2)] addr by simp_all
    with s2(1) assms(3) b None show ?thesis
      by (auto simp: sends_to_def)
  qed
qed

lemma receive_file_tid:
  assumes "receive_file e server remote_filename local_filename (Datagram source datagram # evs) st0 =
             (r, st1)"
    and "send_ok e (length (calls st0))" and "open_ok e"
  shows "server_addr st1 = source \<and>
         (\<forall>c \<in> set (drop (Suc (length (calls st0))) (calls st1)). fst c = source) \<and>
         receive_file e server remote_filename local_filename
           (Datagram source datagram # filter (not_foreign source) evs) st0 = (r, st1)"
proof -
  let ?st = "st0\<lparr>server_addr := server,
                calls := calls st0 @ [(server, create_rrq_packet remote_filename (str ''octet''))],
                fs := (fs st0)(local_filename \<mapsto> []),
                expected_block_num := 1, first_data_packet := True, transfer_complete := False\<rparr>"
  have eq: "receive_file e server remote_filename local_filename evs' st0 =
            receive_file_loop e local_filename evs' ?st" for evs'
    using assms(2,3) by (simp add: receive_file_def sendto_def Let_def)
  have l: "receive_file_loop e local_filename (Datagram source datagram # evs) ?st = (r, st1)"
    using assms(1) eq by simp
  have f: "sends_to source (?st\<lparr>server_addr := source\<rparr>) st1"
    "receive_file_loop e local_filename
       (Datagram source datagram # filter (not_foreign source) evs) ?st = (r, st1)"
    using receive_file_loop_first [OF l] by simp_all
  have "\<forall>c \<in> set (drop (Suc (length (calls st0))) (calls st1)). fst c = source"
    by (rule sends_to_drop [OF f(1)]) simp
  moreover have "server_addr st1 = source"
    using f(1) by (simp add: sends_to_def)
  ultimately show ?thesis
    using f(2) eq by simp
qed

lemma send_file_tid:
  assumes "send_file e server local_filename remote_filename (Datagram source datagram # evs) st0 =
             (r, st1)"
    and "fs st0 local_filename \<noteq> None" and "send_ok e (length (calls st0))"
  shows "server_addr st1 = source \<and>
         (\<forall>c \<in> set (drop (Suc (length (calls st0))) (calls st1)). fst c = source)"
proof -
  obtain f where f: "fs st0 local_filename = Some f"
    using assms(2) by auto
  let ?st = "st0\<lparr>input_file := f,
                calls := calls st0 @ [(server, create_wrq_packet remote_filename (str ''octet''))],
                server_addr := source\<rparr>"
  have "sends_to source ?st st1"
  proof (cases "get_opcode (recv_buffer datagram) = TFTP_OPCODE_ACK \<and>
                parse_ack_packet (recv_buffer datagram) = Some 0")
    case True
    then have "send_file_loop e evs (?st\<lparr>current_block_num := 1, last_data_sent := False\<rparr>) =
               (r, st1)"
      using assms(1,3) f by (simp add: send_file_def sendto_def Let_def)
    then have "sends_to source (?st\<lparr>current_block_num := 1, last_data_sent := False\<rparr>) st1"
      using send_file_loop_sends_to by fastforce
    then show ?thesis by (simp add: sends_to_def)
  next
    case False
    then have "st1 = ?st"
      using assms(1,3) f
      by (auto simp: send_file_def sendto_def Let_def split: if_splits option.splits)
    then show ?thesis by (simp add: sends_to_def)
  qed
  then show ?thesis
    using sends_to_drop [of source ?st st1 "Suc (length (calls st0))"]
    by (simp add: sends_to_def)
qed

text \<open>
  Claim C10.  In both client functions the first datagram received, whatever it
  contains and whoever sent it, makes its source the peer: at the end of the run
  \<open>server_addr\<close> is that source, and every packet sent after the request went to it,
  so the peer is never bound again.  In GET, moreover, the datagrams that arrive later
  from any other source have no effect at all: the run ends in the same outcome and the
  same state (with the same packets sent) as the run without them.
\<close>

theorem client_tid_bound_once:
  "(receive_file e server remote_filename local_filename (Datagram source datagram # evs) st0 =
      (r, st1) \<and> send_ok e (length (calls st0)) \<and> open_ok e \<longrightarrow>
      server_addr st1 = source \<and>
      (\<forall>c \<in> set (drop (Suc (length (calls st0))) (calls st1)). fst c = source) \<and>
      receive_file e server remote_filename local_filename
        (Datagram source datagram # filter (not_foreign source) evs) st0 = (r, st1)) \<and>
   (send_file e server local_filename remote_filename (Datagram source datagram # evs) st0 =
      (r', st1') \<and> fs st0 local_filename \<noteq> None \<and> send_ok e (length (calls st0)) \<longrightarrow>
      server_addr st1' = source \<and>
      (\<forall>c \<in> set (drop (Suc (length (calls st0))) (calls st1')). fst c = source))"
  using receive_file_tid [of e server remote_filename local_filename source datagram evs st0 r st1]
    send_file_tid [of e server local_filename remote_filename source datagram evs st0 r' st1']
  by blast


theorem client_tid_bound_once_witness:
  "send_ok all_ok (length (calls idle)) \<and> open_ok all_ok \<and>
   send_ok all_ok (length (calls (idle\<lparr>fs := [str ''l'' \<mapsto> [97]]\<rparr>))) \<and>
   fs (idle\<lparr>fs := [str ''l'' \<mapsto> [97]]\<rparr>) (str ''l'') \<noteq> None \<and>
   server_addr (snd (receive_file all_ok (1, 69) (str ''r'') (str ''l'')
     [Datagram (9, 9) [0, 5, 0, 0, 0], Datagram (1, 5000) [0, 3, 0, 1, 65]] idle)) = (9, 9) \<and>
   receive_file all_ok (1, 69) (str ''r'') (str ''l'') [Datagram (9, 9) [0, 5, 0, 0, 0]] idle =
   receive_file all_ok (1, 69) (str ''r'') (str ''l'')
     [Datagram (9, 9) [0, 5, 0, 0, 0], Datagram (1, 5000) [0, 3, 0, 1, 65]] idle \<and>
   server_addr (snd (send_file all_ok (1, 69) (str ''l'') (str ''r'')
     [Datagram (9, 9) [0, 5, 0, 0, 0], Datagram (1, 5000) [0, 4, 0, 0]]
     (idle\<lparr>fs := [str ''l'' \<mapsto> [97]]\<rparr>))) = (9, 9)"
proof -
  let ?evs = "[Datagram (1, 5000) [0, 3, 0, 1, 65]]"
  let ?g = "receive_file all_ok (1, 69) (str ''r'') (str ''l'')
     (Datagram (9, 9) [0, 5, 0, 0, 0] # ?evs) idle"
  let ?st = "idle\<lparr>fs := [str ''l'' \<mapsto> [97]]\<rparr>"
  let ?p = "send_file all_ok (1, 69) (str ''l'') (str ''r'')
     (Datagram (9, 9) [0, 5, 0, 0, 0] # [Datagram (1, 5000) [0, 4, 0, 0]]) ?st"
  have a: "send_ok all_ok (length (calls idle))" "open_ok all_ok"
    "send_ok all_ok (length (calls ?st))"
    by (simp_all add: all_ok_def)
  have b: "fs ?st (str ''l'') \<noteq> None"
    by simp
  have g: "?g = (fst ?g, snd ?g)" and p: "?p = (fst ?p, snd ?p)"
    by simp_all
  have "server_addr (snd ?g) = (9, 9) \<and>
        receive_file all_ok (1, 69) (str ''r'') (str ''l'')
          (Datagram (9, 9) [0, 5, 0, 0, 0] # filter (not_foreign (9, 9)) ?evs) idle = ?g"
    using client_tid_bound_once [where e = all_ok and server = "(1, 69)"
        and remote_filename = "str ''r''" and local_filename = "str ''l''" and source = "(9, 9)"
        and datagram = "[0, 5, 0, 0, 0]" and evs = ?evs and ?st0.0 = idle
        and r = "fst ?g" and ?st1.0 = "snd ?g"] g a(1,2)
    by simp
  moreover have "server_addr (snd ?p) = (9, 9)"
    using client_tid_bound_once [where e = all_ok and server = "(1, 69)"
        and remote_filename = "str ''r''" and local_filename = "str ''l''" and source = "(9, 9)"
        and datagram = "[0, 5, 0, 0, 0]" and evs = "[Datagram (1, 5000) [0, 4, 0, 0]]"
        and ?st0.0 = ?st and r' = "fst ?p" and ?st1'.0 = "snd ?p"] p a(3) b
    by simp
  ultimately show ?thesis
    using a b by simp
qed

section \<open>Timeouts and retransmission\<close>






lemma handle_read_request_wait_timeouts:
  assumes "\<forall>n. send_ok e n"
  shows "retry_count + n \<le> MAX_RETRIES \<Longrightarrow>
         handle_read_request_wait e data_packet retry_count (replicate n Timeout @ evs) st =
         handle_read_request_wait e data_packet (retry_count + n) evs
           (st\<lparr>calls := calls st @ replicate n (client_addr st, data_packet)\<rparr>)"
proof (induction n arbitrary: retry_count st)
  case 0
  then show ?case by simp
next
  case (Suc n)
  have "handle_read_request_wait e data_packet retry_count (replicate (Suc n) Timeout @ evs) st =
        handle_read_request_wait e data_packet (Suc retry_count) (replicate n Timeout @ evs)
          (st\<lparr>calls := calls st @ [(client_addr st, data_packet)]\<rparr>)"
    using Suc.prems assms by (simp add: sendto_def)
  also have "\<dots> = handle_read_request_wait e data_packet (Suc retry_count + n) evs
          (st\<lparr>calls := calls st @ [(client_addr st, data_packet)] @
             replicate n (client_addr st, data_packet)\<rparr>)"
    using Suc.prems Suc.IH [of "Suc retry_count" "st\<lparr>calls := calls st @ [(client_addr st, data_packet)]\<rparr>"]
    by simp
  finally show ?case
    by (simp add: replicate_append_same)
qed

lemma handle_read_request_wait_exhausted:
  "handle_read_request_wait e data_packet MAX_RETRIES evs st = (None, evs, st)"
  by (cases evs) simp_all




lemma handle_read_request_wait_five:
  assumes "\<forall>n. send_ok e n"
  shows "handle_read_request_wait e data_packet 0 (replicate 5 Timeout @ evs) st =
         (None, evs, st\<lparr>calls := calls st @ replicate 5 (client_addr st, data_packet)\<rparr>)"
  using handle_read_request_wait_timeouts [OF assms, of 0 5 data_packet evs st]
    handle_read_request_wait_exhausted [of e data_packet evs]
  by (simp add: MAX_RETRIES_def)









text \<open>After the first block the variable \<open>last_ack_received\<close> is still set from the
  block before, so a wait that ends by five timeouts is taken for an acknowledgement:
  for a 512-byte file whose empty second block is never acknowledged the function
  returns as if the transfer had completed.\<close>

lemma handle_read_request_stale_flag:
  "fst (handle_read_request all_ok (1, 4000) (str ''l'')
          (Datagram (1, 4000) (create_ack_packet 1) # replicate 5 Timeout)
          (idle\<lparr>fs := [str ''l'' \<mapsto> replicate 512 7]\<rparr>)) = Completed"
proof -
  let ?st = "idle\<lparr>fs := [str ''l'' \<mapsto> replicate 512 7], client_addr := (1, 4000),
                input_file := replicate 512 7, block_num := 1, last_ack_received := False\<rparr>"
  have s: "\<forall>n. send_ok all_ok n" "send_ok all_ok (length (calls ?st))"
    by (simp_all add: all_ok_def)
  have "handle_read_request all_ok (1, 4000) (str ''l'')
          (Datagram (1, 4000) (create_ack_packet 1) # replicate 5 Timeout)
          (idle\<lparr>fs := [str ''l'' \<mapsto> replicate 512 7]\<rparr>) =
        handle_read_request_loop all_ok
          (Datagram (client_addr ?st) (create_ack_packet (block_num ?st)) # replicate 5 Timeout) ?st"
    by (simp add: handle_read_request_def Let_def)
  also have "\<dots> = handle_read_request_loop all_ok (replicate 5 Timeout @ [])
          (?st\<lparr>input_file := [],
               calls := calls ?st @ [((1, 4000), htons TFTP_OPCODE_DATA @ htons 1 @ replicate 512 7)],
               last_ack_received := True, block_num := 2\<rparr>)"
    using handle_read_request_loop_acked [OF s(2), of "replicate 5 Timeout"] by simp
  finally show ?thesis
    using handle_read_request_wait_five [OF s(1), of _ "[]"]
    by (simp add: handle_read_request_loop.simps handle_read_request_body_def file_read_def
          create_data_packet_def MAX_DATA_SIZE_def sendto_def Let_def all_ok_def)
qed

end
